theory Spec2Isabelle
  imports Complex_Main
begin

section \<open>Voice emotion analysis: prosodic feature extraction\<close>

text \<open>
  A shallow embedding of \<^verbatim>\<open>scripts/voice_emotion_analysis.py\<close>. The script calls the
  signal-processing library (librosa) for decoding, pitch tracking, RMS analysis and beat
  tracking, aggregates the returned arrays with NumPy reductions, and prints the
  resulting dictionary as JSON. The library's analyses are parameters of the model (a
  record of functions, each of which may raise); the NumPy reductions and the script's
  own control flow are written out.
\<close>

subsection \<open>NumPy double-precision values\<close>

text \<open>
  A \<^verbatim>\<open>float64\<close> is a finite number, an infinity or NaN. Finite arithmetic is modelled
  on the reals: rounding and overflow are abstracted away, the special values and the
  results of dividing by zero are kept. NumPy scalar arithmetic never raises on these
  (it emits a RuntimeWarning and returns the special value). A zero is read as $+0$.
\<close>

datatype npfloat = Num real | PosInf | NegInf | NaN

fun is_finite :: "npfloat \<Rightarrow> bool" where
  "is_finite (Num a) = True"
| "is_finite PosInf = False"
| "is_finite NegInf = False"
| "is_finite NaN = False"

fun np_neg :: "npfloat \<Rightarrow> npfloat" where
  "np_neg (Num a) = Num (- a)"
| "np_neg PosInf = NegInf"
| "np_neg NegInf = PosInf"
| "np_neg NaN = NaN"

fun np_add :: "npfloat \<Rightarrow> npfloat \<Rightarrow> npfloat" where
  "np_add NaN b = NaN"
| "np_add a NaN = NaN"
| "np_add (Num a) (Num b) = Num (a + b)"
| "np_add PosInf NegInf = NaN"
| "np_add NegInf PosInf = NaN"
| "np_add PosInf b = PosInf"
| "np_add a PosInf = PosInf"
| "np_add NegInf b = NegInf"
| "np_add a NegInf = NegInf"

definition np_sub :: "npfloat \<Rightarrow> npfloat \<Rightarrow> npfloat" where
  "np_sub a b = np_add a (np_neg b)"

text \<open>An infinity times a finite factor: NaN for zero, else the sign rule.\<close>

definition scale_inf :: "real \<Rightarrow> npfloat \<Rightarrow> npfloat" where
  "scale_inf a i = (if a = 0 then NaN else if 0 < a then i else np_neg i)"

fun np_mul :: "npfloat \<Rightarrow> npfloat \<Rightarrow> npfloat" where
  "np_mul NaN b = NaN"
| "np_mul a NaN = NaN"
| "np_mul (Num a) (Num b) = Num (a * b)"
| "np_mul (Num a) b = scale_inf a b"
| "np_mul a (Num b) = scale_inf b a"
| "np_mul PosInf b = b"
| "np_mul NegInf b = np_neg b"

fun np_div :: "npfloat \<Rightarrow> npfloat \<Rightarrow> npfloat" where
  "np_div NaN b = NaN"
| "np_div a NaN = NaN"
| "np_div (Num a) (Num b) =
     (if b = 0 then (if a = 0 then NaN else if 0 < a then PosInf else NegInf)
      else Num (a / b))"
| "np_div (Num a) b = Num 0"
| "np_div a (Num b) = (if 0 \<le> b then a else np_neg a)"
| "np_div a b = NaN"

fun np_sqrt :: "npfloat \<Rightarrow> npfloat" where
  "np_sqrt (Num a) = (if a < 0 then NaN else Num (sqrt a))"
| "np_sqrt PosInf = PosInf"
| "np_sqrt NegInf = NaN"
| "np_sqrt NaN = NaN"

text \<open>\<^verbatim>\<open>rms ** 2\<close>: the elementwise square.\<close>

definition np_square :: "npfloat \<Rightarrow> npfloat" where
  "np_square a = np_mul a a"

fun np_le :: "npfloat \<Rightarrow> npfloat \<Rightarrow> bool" where
  "np_le NaN b = False"
| "np_le a NaN = False"
| "np_le (Num a) (Num b) = (a \<le> b)"
| "np_le NegInf b = True"
| "np_le a PosInf = True"
| "np_le a b = False"

text \<open>\<^verbatim>\<open>np.maximum\<close> and \<^verbatim>\<open>np.minimum\<close> propagate NaN.\<close>

definition np_maximum :: "npfloat \<Rightarrow> npfloat \<Rightarrow> npfloat" where
  "np_maximum a b = (if a = NaN \<or> b = NaN then NaN else if np_le a b then b else a)"

definition np_minimum :: "npfloat \<Rightarrow> npfloat \<Rightarrow> npfloat" where
  "np_minimum a b = (if a = NaN \<or> b = NaN then NaN else if np_le a b then a else b)"

subsection \<open>Exceptions\<close>

text \<open>
  Every exception of the \<^verbatim>\<open>try\<close> block is caught by \<^verbatim>\<open>except Exception as e\<close>; the
  constructor's argument is \<^verbatim>\<open>str(e)\<close>. \<open>LibraryError\<close> is anything raised inside a
  librosa call.
\<close>

datatype exn = LibraryError string | IndexError string | ValueError string

fun str_exn :: "exn \<Rightarrow> string" where
  "str_exn (LibraryError m) = m"
| "str_exn (IndexError m) = m"
| "str_exn (ValueError m) = m"

definition bind_exn :: "exn + 'a \<Rightarrow> ('a \<Rightarrow> exn + 'b) \<Rightarrow> exn + 'b" where
  "bind_exn m f = (case m of Inl e \<Rightarrow> Inl e | Inr x \<Rightarrow> f x)"

subsection \<open>NumPy array operations\<close>

definition np_sum :: "npfloat list \<Rightarrow> npfloat" where
  "np_sum xs = foldl np_add (Num 0) xs"

text \<open>
  \<^verbatim>\<open>np.mean\<close>: the sum over the count. On an empty array this is $0/0$: NaN, with a
  warning and no exception.
\<close>

definition np_mean :: "npfloat list \<Rightarrow> npfloat" where
  "np_mean xs = np_div (np_sum xs) (Num (real (length xs)))"

text \<open>\<^verbatim>\<open>np.var\<close> (\<^verbatim>\<open>ddof=0\<close>): the mean of the squared deviations from the mean.\<close>

definition np_var :: "npfloat list \<Rightarrow> npfloat" where
  "np_var xs =
     (let arrmean = np_mean xs
      in np_div (np_sum (map (\<lambda>x. np_square (np_sub x arrmean)) xs))
           (Num (real (length xs))))"

definition np_std :: "npfloat list \<Rightarrow> npfloat" where
  "np_std xs = np_sqrt (np_var xs)"

text \<open>\<^verbatim>\<open>np.diff(a)\<close> is \<^verbatim>\<open>a[1:] - a[:-1]\<close>.\<close>

definition np_diff :: "npfloat list \<Rightarrow> npfloat list" where
  "np_diff xs = map (\<lambda>(b, a). np_sub b a) (zip (tl xs) (butlast xs))"

text \<open>The beat positions are an integer array (frame indices).\<close>

definition np_diff_int :: "int list \<Rightarrow> int list" where
  "np_diff_int xs = map (\<lambda>(b, a). b - a) (zip (tl xs) (butlast xs))"

text \<open>A reduction over an integer array is computed in \<^verbatim>\<open>float64\<close>.\<close>

definition as_float :: "int list \<Rightarrow> npfloat list" where
  "as_float xs = map (\<lambda>i. Num (real_of_int i)) xs"

text \<open>
  \<^verbatim>\<open>np.ptp\<close>: maximum minus minimum. Unlike the mean, the maximum of an empty array
  has no identity and raises ValueError.
\<close>

definition np_ptp :: "npfloat list \<Rightarrow> exn + npfloat" where
  "np_ptp xs =
     (case xs of
        [] \<Rightarrow> Inl (ValueError
          ''zero-size array to reduction operation maximum which has no identity'')
      | x # rest \<Rightarrow> Inr (np_sub (foldl np_maximum x rest) (foldl np_minimum x rest)))"

text \<open>
  \<^verbatim>\<open>f0[voiced_flag]\<close>: selection by a boolean mask. A mask of another length raises
  IndexError.
\<close>

definition boolean_mask :: "npfloat list \<Rightarrow> bool list \<Rightarrow> exn + npfloat list" where
  "boolean_mask a flags =
     (if length flags = length a then Inr (map fst (filter snd (zip a flags)))
      else Inl (IndexError ''boolean index did not match indexed array along axis 0''))"

text \<open>\<^verbatim>\<open>a[0]\<close> on a two-dimensional array: its first row.\<close>

definition first_row :: "npfloat list list \<Rightarrow> exn + npfloat list" where
  "first_row rows =
     (case rows of
        [] \<Rightarrow> Inl (IndexError ''index 0 is out of bounds for axis 0 with size 0'')
      | r # rest \<Rightarrow> Inr r)"

subsection \<open>Python values\<close>

text \<open>
  The returned dictionary: floats, lists and dictionaries with string keys, in insertion
  order (which \<^verbatim>\<open>json.dumps\<close> keeps).
\<close>

datatype pyval = PyFloat npfloat | PyList "pyval list" | PyDict "(string \<times> pyval) list"

text \<open>\<^verbatim>\<open>ndarray.tolist()\<close>.\<close>

definition tolist :: "npfloat list \<Rightarrow> pyval" where
  "tolist xs = PyList (map PyFloat xs)"

fun dict_get :: "pyval \<Rightarrow> string \<Rightarrow> pyval option" where
  "dict_get (PyDict kvs) k = map_of kvs k"
| "dict_get (PyFloat a) k = None"
| "dict_get (PyList vs) k = None"


text \<open>\<open>field r s k\<close> reads \<^verbatim>\<open>r[s][k]\<close>.\<close>

definition field :: "pyval \<Rightarrow> string \<Rightarrow> string \<Rightarrow> pyval option" where
  "field r s k = (case dict_get r s of None \<Rightarrow> None | Some d \<Rightarrow> dict_get d k)"

text \<open>Truth value of a Python object: an empty container is false.\<close>

fun truthy :: "pyval \<Rightarrow> bool" where
  "truthy (PyDict kvs) = (kvs \<noteq> [])"
| "truthy (PyList vs) = (vs \<noteq> [])"
| "truthy (PyFloat a) = (a \<noteq> Num 0)"

subsection \<open>The signal-processing library\<close>

text \<open>
  The librosa entry points the script calls, with the arguments it passes. The waveform
  is a sample array with its sample rate. \<open>pyin\<close> takes the waveform and the bounds
  \<^verbatim>\<open>fmin\<close>, \<^verbatim>\<open>fmax\<close> and returns \<^verbatim>\<open>(f0, voiced_flag, voiced_probs)\<close>; \<open>beat_track\<close>
  returns the tempo and the beat frames; the feature functions return a matrix with one
  row.
\<close>

record librosa =
  load :: "string \<Rightarrow> exn + npfloat list \<times> int"
  pyin :: "npfloat list \<Rightarrow> int \<Rightarrow> int \<Rightarrow> exn + npfloat list \<times> bool list \<times> npfloat list"
  feature_rms :: "npfloat list \<Rightarrow> exn + npfloat list list"
  feature_spectral_centroid :: "npfloat list \<Rightarrow> int \<Rightarrow> exn + npfloat list list"
  feature_spectral_rolloff :: "npfloat list \<Rightarrow> int \<Rightarrow> exn + npfloat list list"
  beat_track :: "npfloat list \<Rightarrow> int \<Rightarrow> exn + npfloat \<times> int list"
  stft :: "npfloat list \<Rightarrow> exn + (npfloat \<times> npfloat) list list"
  fft_frequencies :: "int \<Rightarrow> exn + npfloat list"

subsection \<open>\<^verbatim>\<open>extract_prosodic_features\<close>\<close>

text \<open>The three fixed formant entries of the dictionary literal.\<close>

definition formant :: "real \<Rightarrow> real \<Rightarrow> pyval" where
  "formant f b = PyDict [(''frequency'', PyFloat (Num f)), (''bandwidth'', PyFloat (Num b))]"

definition formants :: "pyval" where
  "formants = PyList [formant 700 50, formant 1200 70, formant 2500 100]"

text \<open>
  The dictionary literal of the \<^verbatim>\<open>return\<close> statement. \<^verbatim>\<open>np.ptp\<close> is the one
  reduction in it that can raise; its two calls are bound first, in source order (the
  entries between them cannot raise), and the entries follow as the literal lists them.
\<close>

definition build_features ::
  "npfloat list \<Rightarrow> npfloat list \<Rightarrow> npfloat list \<Rightarrow> npfloat \<Rightarrow> int list \<Rightarrow> exn + pyval" where
  "build_features f0_clean rms energy tempo beats =
     bind_exn (if length f0_clean > 0 then np_ptp f0_clean else Inr (Num 50)) (\<lambda>f0_range.
     bind_exn (np_ptp energy) (\<lambda>dynamic_range.
     Inr (PyDict [
       (''pitch'', PyDict [
          (''mean_f0'', PyFloat (if length f0_clean > 0 then np_mean f0_clean else Num 150)),
          (''f0_variance'', PyFloat (if length f0_clean > 0 then np_var f0_clean else Num 100)),
          (''f0_range'', PyFloat f0_range),
          (''pitch_contour'', if length f0_clean > 0 then tolist (take 100 f0_clean) else PyList [])]),
       (''energy'', PyDict [
          (''mean_energy'', PyFloat (np_mean energy)),
          (''energy_variance'', PyFloat (np_var energy)),
          (''dynamic_range'', PyFloat dynamic_range),
          (''energy_contour'', tolist (take 100 energy))]),
       (''timing'', PyDict [
          (''speaking_rate'', PyFloat (np_mul tempo (Num 2))),
          (''pause_patterns'', PyList []),
          (''rhythm_score'', PyFloat (np_div (np_std (as_float (np_diff_int beats)))
                                         (np_mean (as_float (np_diff_int beats)))))]),
       (''voice_quality'', PyDict [
          (''jitter'', PyFloat (if length f0_clean > 1
                                 then np_div (np_std (np_diff f0_clean)) (np_mean f0_clean)
                                 else Num (1 / 100))),
          (''shimmer'', PyFloat (np_div (np_std (np_diff rms)) (np_mean rms))),
          (''hnr'', PyFloat (Num 15)),
          (''formants'', formants)])])))"

text \<open>
  The body of the \<^verbatim>\<open>try\<close> block, statement by statement. The spectral features, the
  STFT (and its magnitude, a pure elementwise operation) and the FFT frequencies are
  computed and not used: only their exceptions matter.
\<close>

definition try_body :: "librosa \<Rightarrow> string \<Rightarrow> exn + pyval" where
  "try_body lib audio_path =
     bind_exn (load lib audio_path) (\<lambda>(y, sr).
     bind_exn (pyin lib y 50 400) (\<lambda>(f0, voiced_flag, voiced_probs).
     bind_exn (boolean_mask f0 voiced_flag) (\<lambda>f0_clean.
     bind_exn (bind_exn (feature_rms lib y) first_row) (\<lambda>rms.
     let energy = map np_square rms in
     bind_exn (bind_exn (feature_spectral_centroid lib y sr) first_row) (\<lambda>spectral_centroids.
     bind_exn (bind_exn (feature_spectral_rolloff lib y sr) first_row) (\<lambda>spectral_rolloff.
     bind_exn (beat_track lib y sr) (\<lambda>(tempo, beats).
     bind_exn (stft lib y) (\<lambda>stft_matrix.
     bind_exn (fft_frequencies lib sr) (\<lambda>freqs.
     build_features f0_clean rms energy tempo beats)))))))))"

text \<open>
  The function itself: the result (\<open>None\<close> for Python's \<^verbatim>\<open>None\<close>) and the lines it
  printed to the error stream.
\<close>

definition extract_prosodic_features :: "librosa \<Rightarrow> string \<Rightarrow> pyval option \<times> string list" where
  "extract_prosodic_features lib audio_path =
     (case try_body lib audio_path of
        Inr features \<Rightarrow> (Some features, [])
      | Inl e \<Rightarrow> (None, [''Error processing audio: '' @ str_exn e]))"

subsection \<open>The program\<close>

text \<open>
  A run of the script: what it wrote to standard output and to the error stream, and its
  exit status. Standard output holds \<^verbatim>\<open>json.dumps\<close> calls (the value and the indent);
  the rendering of floats as text is not modelled.
\<close>

datatype printed = JsonDumps pyval nat

record outcome =
  stdout :: "printed list"
  stderr :: "string list"
  status :: nat

text \<open>
  \<open>main\<close> takes the library (\<open>None\<close> when importing librosa or scipy fails) and
  \<^verbatim>\<open>sys.argv\<close>, the script's name first.
\<close>

definition main :: "librosa option \<Rightarrow> string list \<Rightarrow> outcome" where
  "main libs argv =
     (case libs of
        None \<Rightarrow> \<lparr>stdout = [],
          stderr = [''Error: librosa and scipy are required for advanced voice analysis''],
          status = 1\<rparr>
      | Some lib \<Rightarrow>
          if length argv \<noteq> 2
          then \<lparr>stdout = [],
            stderr = [''Usage: python voice_emotion_analysis.py <audio_file>''],
            status = 1\<rparr>
          else
            (let audio_path = argv ! 1;
                 (features, err) = extract_prosodic_features lib audio_path
             in case features of
                  None \<Rightarrow> \<lparr>stdout = [], stderr = err, status = 1\<rparr>
                | Some d \<Rightarrow>
                    if truthy d then \<lparr>stdout = [JsonDumps d 2], stderr = err, status = 0\<rparr>
                    else \<lparr>stdout = [], stderr = err, status = 1\<rparr>))"

subsection \<open>Spec-level notions\<close>

text \<open>
  The notions the specification's sentences use, written from its words, to be compared
  with what the code computes.
\<close>

text \<open>The coefficient of variation: the standard deviation divided by the mean.\<close>

definition coefficient_of_variation :: "npfloat list \<Rightarrow> npfloat" where
  "coefficient_of_variation xs = np_div (np_std xs) (np_mean xs)"

text \<open>The successive differences of a sequence: each element minus the one before it.\<close>

definition successive_differences :: "npfloat list \<Rightarrow> npfloat list" where
  "successive_differences xs = map (\<lambda>i. np_sub (xs ! Suc i) (xs ! i)) [0 ..< length xs - 1]"

text \<open>The pitch estimates of the frames flagged as voiced, in frame order.\<close>

definition voiced_values :: "npfloat list \<Rightarrow> bool list \<Rightarrow> npfloat list" where
  "voiced_values f0 flags = map (\<lambda>i. f0 ! i) (filter (\<lambda>i. flags ! i) [0 ..< length f0])"

text \<open>A value within the closed range of two integer bounds (in Hz).\<close>

fun within_hz :: "int \<Rightarrow> int \<Rightarrow> npfloat \<Rightarrow> bool" where
  "within_hz lo hi (Num a) = (real_of_int lo \<le> a \<and> a \<le> real_of_int hi)"
| "within_hz lo hi PosInf = False"
| "within_hz lo hi NegInf = False"
| "within_hz lo hi NaN = False"

text \<open>
  Modelled from the spec: the pitch tracker (\<^verbatim>\<open>librosa.pyin\<close>, not part of this
  repository) is "bounded to the human voice range (50-400 Hz)": every frame it flags as
  voiced carries an estimate within the bounds it was given, and its arrays are aligned
  to the same frames.
\<close>

definition pyin_bounded :: "int \<Rightarrow> int \<Rightarrow> npfloat list \<times> bool list \<times> npfloat list \<Rightarrow> bool" where
  "pyin_bounded fmin fmax res =
     (case res of (f0, voiced_flag, voiced_probs) \<Rightarrow>
        length voiced_flag = length f0 \<and>
        list_all (within_hz fmin fmax) (voiced_values f0 voiced_flag))"

text \<open>
  The library processes the file: the decoder and every analysis the script calls
  return, with arrays of the shapes librosa produces (\<^verbatim>\<open>f0\<close> and \<^verbatim>\<open>voiced_flag\<close>
  aligned frame by frame, each feature matrix with its one row, at least one RMS frame).
\<close>

definition analyses_return :: "librosa \<Rightarrow> string \<Rightarrow> bool" where
  "analyses_return lib audio_path =
     (case load lib audio_path of
        Inl e \<Rightarrow> False
      | Inr (y, sr) \<Rightarrow>
          (case pyin lib y 50 400 of
             Inl e \<Rightarrow> False
           | Inr (f0, voiced_flag, voiced_probs) \<Rightarrow> length voiced_flag = length f0) \<and>
          (case feature_rms lib y of
             Inl e \<Rightarrow> False
           | Inr rows \<Rightarrow> (case rows of [] \<Rightarrow> False | rms # rest \<Rightarrow> rms \<noteq> [])) \<and>
          (case feature_spectral_centroid lib y sr of
             Inl e \<Rightarrow> False | Inr rows \<Rightarrow> rows \<noteq> []) \<and>
          (case feature_spectral_rolloff lib y sr of
             Inl e \<Rightarrow> False | Inr rows \<Rightarrow> rows \<noteq> []) \<and>
          (case beat_track lib y sr of Inl e \<Rightarrow> False | Inr tb \<Rightarrow> True) \<and>
          (case stft lib y of Inl e \<Rightarrow> False | Inr m \<Rightarrow> True) \<and>
          (case fft_frequencies lib sr of Inl e \<Rightarrow> False | Inr fs \<Rightarrow> True))"


subsection \<open>Example libraries\<close>

text \<open>
  Instances of the library parameter, for concrete runs. The analyses of an example
  library are fixed arrays with one entry per analysis frame (a hop of 512 samples); the
  spectral features and the STFT, which the script does not use, are abbreviated.
\<close>

text \<open>An all-zero waveform of \<open>n\<close> samples.\<close>

definition silence :: "nat \<Rightarrow> npfloat list" where
  "silence n = replicate n (Num 0)"

text \<open>A waveform of \<open>n\<close> samples: a sawtooth with a period of 200 samples.\<close>

definition tone :: "nat \<Rightarrow> npfloat list" where
  "tone n = map (\<lambda>i. Num (real (i mod 200) / 200 - 1 / 2)) [0 ..< n]"

text \<open>
  The library on an all-zero waveform of three frames: no frame is voiced (the pitch
  estimate of an unvoiced frame is NaN), the RMS of every frame is zero, and the beat
  tracker finds no onset and returns tempo 0 with no beat.
\<close>

definition silent_lib :: librosa where
  "silent_lib =
     \<lparr>load = (\<lambda>p. Inr (silence 1024, 22050)),
      pyin = (\<lambda>y fmin fmax. Inr ([NaN, NaN, NaN], [False, False, False],
                                  [Num 0, Num 0, Num 0])),
      feature_rms = (\<lambda>y. Inr [[Num 0, Num 0, Num 0]]),
      feature_spectral_centroid = (\<lambda>y sr. Inr [[Num 0, Num 0, Num 0]]),
      feature_spectral_rolloff = (\<lambda>y sr. Inr [[Num 0, Num 0, Num 0]]),
      beat_track = (\<lambda>y sr. Inr (Num 0, [])),
      stft = (\<lambda>y. Inr [[(Num 0, Num 0)]]),
      fft_frequencies = (\<lambda>sr. Inr [Num 0, Num 11025])\<rparr>"

text \<open>
  A short voiced recording of five frames, the second and the last unvoiced, with three
  beats.
\<close>

definition voiced_lib :: librosa where
  "voiced_lib =
     \<lparr>load = (\<lambda>p. Inr (tone 2048, 22050)),
      pyin = (\<lambda>y fmin fmax. Inr ([Num 100, NaN, Num 110, Num 130, NaN],
                                  [True, False, True, True, False],
                                  [Num 1, Num 0, Num 1, Num 1, Num 0])),
      feature_rms = (\<lambda>y. Inr [[Num (1 / 8), Num (1 / 8), Num (3 / 8), Num (3 / 8),
                                Num (5 / 8)]]),
      feature_spectral_centroid = (\<lambda>y sr. Inr [[Num 1000, Num 1200, Num 900, Num 950,
                                                  Num 1100]]),
      feature_spectral_rolloff = (\<lambda>y sr. Inr [[Num 3000, Num 3500, Num 2800, Num 2900,
                                                 Num 3100]]),
      beat_track = (\<lambda>y sr. Inr (Num 120, [0, 10, 30])),
      stft = (\<lambda>y. Inr [[(Num 1, Num 0)]]),
      fft_frequencies = (\<lambda>sr. Inr [Num 0, Num 11025])\<rparr>"

text \<open>A library whose decoder rejects every path.\<close>

definition undecodable_lib :: librosa where
  "undecodable_lib =
     silent_lib\<lparr>load := (\<lambda>p. Inl (LibraryError ''No such file or directory''))\<rparr>"

text \<open>A recording of 150 analysis frames, all of them voiced.\<close>

definition long_lib :: librosa where
  "long_lib =
     \<lparr>load = (\<lambda>p. Inr (tone 76288, 22050)),
      pyin = (\<lambda>y fmin fmax. Inr (replicate 150 (Num 200), replicate 150 True,
                                  replicate 150 (Num 1))),
      feature_rms = (\<lambda>y. Inr [replicate 150 (Num (1 / 2))]),
      feature_spectral_centroid = (\<lambda>y sr. Inr [replicate 150 (Num 1000)]),
      feature_spectral_rolloff = (\<lambda>y sr. Inr [replicate 150 (Num 3000)]),
      beat_track = (\<lambda>y sr. Inr (Num 120, [0, 20, 40, 60])),
      stft = (\<lambda>y. Inr [replicate 150 (Num 1, Num 0)]),
      fft_frequencies = (\<lambda>sr. Inr [Num 0, Num 11025])\<rparr>"

text \<open>The dictionaries the script returns with \<open>silent_lib\<close> and with \<open>voiced_lib\<close>.\<close>

definition silent_features :: pyval where
  "silent_features =
     PyDict [
       (''pitch'', PyDict [
          (''mean_f0'', PyFloat (Num 150)),
          (''f0_variance'', PyFloat (Num 100)),
          (''f0_range'', PyFloat (Num 50)),
          (''pitch_contour'', PyList [])]),
       (''energy'', PyDict [
          (''mean_energy'', PyFloat (Num 0)),
          (''energy_variance'', PyFloat (Num 0)),
          (''dynamic_range'', PyFloat (Num 0)),
          (''energy_contour'', PyList [PyFloat (Num 0), PyFloat (Num 0), PyFloat (Num 0)])]),
       (''timing'', PyDict [
          (''speaking_rate'', PyFloat (Num 0)),
          (''pause_patterns'', PyList []),
          (''rhythm_score'', PyFloat NaN)]),
       (''voice_quality'', PyDict [
          (''jitter'', PyFloat (Num (1 / 100))),
          (''shimmer'', PyFloat NaN),
          (''hnr'', PyFloat (Num 15)),
          (''formants'', formants)])]"

definition voiced_features :: pyval where
  "voiced_features =
     PyDict [
       (''pitch'', PyDict [
          (''mean_f0'', PyFloat (Num (340 / 3))),
          (''f0_variance'', PyFloat (Num (1400 / 9))),
          (''f0_range'', PyFloat (Num 30)),
          (''pitch_contour'', PyList [PyFloat (Num 100), PyFloat (Num 110), PyFloat (Num 130)])]),
       (''energy'', PyDict [
          (''mean_energy'', PyFloat (Num (9 / 64))),
          (''energy_variance'', PyFloat (Num (3 / 160))),
          (''dynamic_range'', PyFloat (Num (3 / 8))),
          (''energy_contour'',
             PyList [PyFloat (Num (1 / 64)), PyFloat (Num (1 / 64)), PyFloat (Num (9 / 64)),
                     PyFloat (Num (9 / 64)), PyFloat (Num (25 / 64))])]),
       (''timing'', PyDict [
          (''speaking_rate'', PyFloat (Num 240)),
          (''pause_patterns'', PyList []),
          (''rhythm_score'', PyFloat (Num (1 / 3)))]),
       (''voice_quality'', PyDict [
          (''jitter'', PyFloat (Num (3 / 68))),
          (''shimmer'', PyFloat (Num (5 / 13))),
          (''hnr'', PyFloat (Num 15)),
          (''formants'', formants)])]"

section \<open>Properties\<close>

subsection \<open>Auxiliary facts\<close>

lemma sqrt_25: "sqrt 25 = 5"
  by (rule real_sqrt_unique) simp_all

lemma sqrt_64th: "sqrt (1 / 64) = 1 / 8"
  by (rule real_sqrt_unique) (simp_all add: power2_eq_square)

lemmas np_defs =
  np_ptp_def np_maximum_def np_minimum_def np_sub_def np_square_def np_mean_def np_var_def
  np_std_def np_sum_def np_diff_def np_diff_int_def as_float_def tolist_def

lemmas body_defs =
  try_body_def bind_exn_def boolean_mask_def first_row_def build_features_def Let_def

lemma bind_exn_Inr: "bind_exn m f = Inr r \<longleftrightarrow> (\<exists>x. m = Inr x \<and> f x = Inr r)"
  by (cases m) (simp_all add: bind_exn_def)

lemma first_row_Inr: "first_row rows = Inr r \<longleftrightarrow> (\<exists>rest. rows = r # rest)"
  by (cases rows) (auto simp: first_row_def)

lemma boolean_mask_Inr:
  "boolean_mask a fl = Inr c \<longleftrightarrow> length fl = length a \<and> c = map fst (filter snd (zip a fl))"
  by (auto simp: boolean_mask_def)

text \<open>The code's \<^verbatim>\<open>np.diff\<close> computes the successive differences.\<close>

lemma np_diff_successive: "np_diff xs = successive_differences xs"
  unfolding np_diff_def successive_differences_def
  by (rule nth_equalityI) (simp_all add: nth_tl nth_butlast)

text \<open>Differences of integer beat frames, read as floats.\<close>

lemma as_float_diff: "as_float (np_diff_int bs) = successive_differences (as_float bs)"
  unfolding np_diff_int_def successive_differences_def as_float_def
  by (rule nth_equalityI) (simp_all add: nth_tl nth_butlast np_sub_def)

text \<open>Selection by an aligned boolean mask keeps exactly the flagged frames.\<close>

lemma mask_voiced_values:
  assumes "length fl = length a"
  shows "map fst (filter snd (zip a fl)) = voiced_values a fl"
proof -
  have z: "zip a fl = map (\<lambda>i. (a ! i, fl ! i)) [0 ..< length a]"
    using assms by (intro nth_equalityI) simp_all
  show ?thesis
    unfolding voiced_values_def by (subst z) (simp add: filter_map comp_def)
qed

lemma try_body_InrD:
  assumes "try_body lib p = Inr r"
  shows "\<exists>y sr f0 vf vp rms rest tempo beats.
           load lib p = Inr (y, sr) \<and> pyin lib y 50 400 = Inr (f0, vf, vp) \<and>
           length vf = length f0 \<and> feature_rms lib y = Inr (rms # rest) \<and>
           beat_track lib y sr = Inr (tempo, beats) \<and>
           build_features (map fst (filter snd (zip f0 vf))) rms (map np_square rms)
             tempo beats = Inr r"
  using assms unfolding try_body_def Let_def
  by (auto simp: bind_exn_Inr first_row_Inr boolean_mask_Inr)

lemma extract_SomeD:
  assumes "extract_prosodic_features lib p = (Some r, err)"
  shows "try_body lib p = Inr r \<and> err = []"
  using assms by (auto simp: extract_prosodic_features_def split: sum.splits)

text \<open>What a successful extraction has seen of the library.\<close>

lemma success_analysis:
  assumes "extract_prosodic_features lib p = (Some r, err)"
    and "load lib p = Inr (y, sr)"
  shows "\<exists>f0 vf vp rms rest tempo beats.
           pyin lib y 50 400 = Inr (f0, vf, vp) \<and> length vf = length f0 \<and>
           feature_rms lib y = Inr (rms # rest) \<and>
           beat_track lib y sr = Inr (tempo, beats) \<and>
           build_features (voiced_values f0 vf) rms (map np_square rms) tempo beats = Inr r"
proof -
  from assms(1) have "try_body lib p = Inr r"
    by (simp add: extract_SomeD)
  from try_body_InrD [OF this] assms(2) show ?thesis
    by (auto simp: mask_voiced_values)
qed

lemma success_load:
  assumes "extract_prosodic_features lib p = (Some r, err)"
  shows "\<exists>y sr. load lib p = Inr (y, sr)"
  using try_body_InrD extract_SomeD [OF assms] by blast

lemma success_built:
  assumes "extract_prosodic_features lib p = (Some r, err)"
  shows "\<exists>c rms en tempo beats. build_features c rms en tempo beats = Inr r"
proof -
  from success_load [OF assms] obtain y sr where "load lib p = Inr (y, sr)"
    by blast
  from success_analysis [OF assms this] show ?thesis
    by blast
qed

text \<open>The runs of the example libraries.\<close>

lemma silent_run:
  "extract_prosodic_features silent_lib p = (Some silent_features, [])"
  by (simp add: extract_prosodic_features_def body_defs silent_lib_def np_defs
      silent_features_def)

lemma voiced_run:
  "extract_prosodic_features voiced_lib p = (Some voiced_features, [])"
  by (simp add: extract_prosodic_features_def body_defs voiced_lib_def np_defs
      voiced_features_def sqrt_25 sqrt_64th)

lemma unvoiced_values:
  assumes "list_all (\<lambda>v. \<not> v) fl" and "length fl = length a"
  shows "voiced_values a fl = []"
proof -
  have "filter snd (zip a fl) = []"
    using assms(1) by (auto simp: filter_empty_conv list_all_iff dest: set_zip_rightD)
  then show ?thesis
    using mask_voiced_values [OF assms(2)] by simp
qed

text \<open>When the library returns, the \<^verbatim>\<open>try\<close> block reaches the dictionary literal.\<close>

lemma try_body_returns:
  assumes "analyses_return lib p"
    and "load lib p = Inr (y, sr)"
    and "pyin lib y 50 400 = Inr (f0, vf, vp)"
  shows "\<exists>rms rest tempo beats.
           feature_rms lib y = Inr (rms # rest) \<and> rms \<noteq> [] \<and> length vf = length f0 \<and>
           beat_track lib y sr = Inr (tempo, beats) \<and>
           try_body lib p =
             build_features (voiced_values f0 vf) rms (map np_square rms) tempo beats"
  using assms unfolding analyses_return_def try_body_def
  by (auto simp: bind_exn_def first_row_def boolean_mask_def mask_voiced_values
      split: sum.splits list.splits prod.splits)

lemma build_features_unvoiced:
  assumes "energy \<noteq> []"
  shows "\<exists>r. build_features [] rms energy tempo beats = Inr r \<and>
           dict_get r ''pitch'' =
             Some (PyDict [(''mean_f0'', PyFloat (Num 150)),
                           (''f0_variance'', PyFloat (Num 100)),
                           (''f0_range'', PyFloat (Num 50)),
                           (''pitch_contour'', PyList [])])"
  using assms by (cases energy) (simp_all add: build_features_def bind_exn_def np_ptp_def)

text \<open>
  The dictionary literal fails only through \<^verbatim>\<open>np.ptp\<close> of an empty energy array, and
  the extraction returns a record exactly when the library returns.
\<close>

lemma build_features_Inr_iff:
  "(\<exists>r. build_features c rms en tempo beats = Inr r) \<longleftrightarrow> en \<noteq> []"
proof (cases en)
  case Nil
  then show ?thesis
    by (simp add: build_features_def bind_exn_Inr np_ptp_def)
next
  case (Cons e es)
  then show ?thesis
    by (cases c) (simp_all add: build_features_def bind_exn_def np_ptp_def)
qed

lemma try_body_needs_library:
  assumes "try_body lib p = Inr r"
  shows "analyses_return lib p"
proof -
  have nonempty: "\<And>c rms en t b. build_features c rms en t b = Inr r \<Longrightarrow> en \<noteq> []"
    using build_features_Inr_iff by blast
  show ?thesis
    using assms unfolding try_body_def analyses_return_def Let_def
    by (auto simp: bind_exn_def first_row_def boolean_mask_def
        split: sum.splits prod.splits list.splits if_splits dest!: nonempty)
qed

lemma extraction_succeeds_iff:
  "(\<exists>r err. extract_prosodic_features lib p = (Some r, err)) \<longleftrightarrow> analyses_return lib p"
proof
  assume "\<exists>r err. extract_prosodic_features lib p = (Some r, err)"
  then obtain r where "try_body lib p = Inr r"
    using extract_SomeD by blast
  then show "analyses_return lib p"
    by (rule try_body_needs_library)
next
  assume a: "analyses_return lib p"
  then obtain y sr where l: "load lib p = Inr (y, sr)"
    by (cases "load lib p") (auto simp: analyses_return_def)
  with a obtain f0 vf vp where y: "pyin lib y 50 400 = Inr (f0, vf, vp)"
    by (cases "pyin lib y 50 400") (auto simp: analyses_return_def)
  from try_body_returns [OF a l y] obtain rms rest tempo beats
    where "rms \<noteq> []"
      and body: "try_body lib p =
        build_features (voiced_values f0 vf) rms (map np_square rms) tempo beats"
    by blast
  then have "\<exists>r. build_features (voiced_values f0 vf) rms (map np_square rms) tempo beats
      = Inr r"
    by (simp add: build_features_Inr_iff)
  then obtain r where "try_body lib p = Inr r"
    using body by auto
  then show "\<exists>r err. extract_prosodic_features lib p = (Some r, err)"
    by (simp add: extract_prosodic_features_def)
qed

subsection \<open>Pitch fallback on unvoiced input\<close>

text \<open>
  Claim C2. For every input the library processes in which no frame is flagged as voiced
  (for example an all-zero waveform), extraction succeeds, printing nothing to the error
  stream, and the pitch section of the result is exactly the fallback constants:
  \<^verbatim>\<open>mean_f0\<close> 150.0, \<^verbatim>\<open>f0_variance\<close> 100.0, \<^verbatim>\<open>f0_range\<close> 50.0 and an empty
  \<^verbatim>\<open>pitch_contour\<close>. The condition \<open>analyses_return\<close> on the library is the one
  under which any extraction succeeds (\<open>extraction_succeeds_iff\<close>).
\<close>

theorem unvoiced_pitch_fallback:
  assumes "analyses_return lib audio_path"
    and "load lib audio_path = Inr (y, sr)"
    and "pyin lib y 50 400 = Inr (f0, voiced_flag, voiced_probs)"
    and "list_all (\<lambda>v. \<not> v) voiced_flag"
  shows "\<exists>r. extract_prosodic_features lib audio_path = (Some r, []) \<and>
           dict_get r ''pitch'' =
             Some (PyDict [(''mean_f0'', PyFloat (Num 150)),
                           (''f0_variance'', PyFloat (Num 100)),
                           (''f0_range'', PyFloat (Num 50)),
                           (''pitch_contour'', PyList [])])"
proof -
  from try_body_returns [OF assms(1-3)] obtain rms rest tempo beats
    where rms: "rms \<noteq> []" and len: "length voiced_flag = length f0"
      and body: "try_body lib audio_path =
        build_features (voiced_values f0 voiced_flag) rms (map np_square rms) tempo beats"
    by blast
  have "voiced_values f0 voiced_flag = []"
    using assms(4) len by (rule unvoiced_values)
  with body have body': "try_body lib audio_path =
      build_features [] rms (map np_square rms) tempo beats"
    by simp
  from rms have "map np_square rms \<noteq> []"
    by simp
  from build_features_unvoiced [OF this] obtain r
    where "build_features [] rms (map np_square rms) tempo beats = Inr r"
      and "dict_get r ''pitch'' =
             Some (PyDict [(''mean_f0'', PyFloat (Num 150)),
                           (''f0_variance'', PyFloat (Num 100)),
                           (''f0_range'', PyFloat (Num 50)),
                           (''pitch_contour'', PyList [])])"
    by blast
  with body' show ?thesis
    by (auto simp: extract_prosodic_features_def)
qed

text \<open>The all-zero waveform: no voiced frame, and the fallback pitch section.\<close>

theorem unvoiced_pitch_fallback_witness:
  "analyses_return silent_lib ''silence.wav'' \<and>
   list_all (\<lambda>v. \<not> v) [False, False, False] \<and>
   (\<exists>r. extract_prosodic_features silent_lib ''silence.wav'' = (Some r, []) \<and>
      dict_get r ''pitch'' =
        Some (PyDict [(''mean_f0'', PyFloat (Num 150)),
                      (''f0_variance'', PyFloat (Num 100)),
                      (''f0_range'', PyFloat (Num 50)),
                      (''pitch_contour'', PyList [])]))"
proof -
  have a: "analyses_return silent_lib ''silence.wav''"
    by (simp add: analyses_return_def silent_lib_def)
  have l: "load silent_lib ''silence.wav'' = Inr (silence 1024, 22050)"
    by (simp add: silent_lib_def)
  have p: "pyin silent_lib (silence 1024) 50 400 =
      Inr ([NaN, NaN, NaN], [False, False, False], [Num 0, Num 0, Num 0])"
    by (simp add: silent_lib_def)
  have v: "list_all (\<lambda>v. \<not> v) [False, False, False]"
    by simp
  from unvoiced_pitch_fallback [OF a l p v] a v show ?thesis
    by blast
qed

subsection \<open>Non-finite outputs on degenerate input\<close>

text \<open>
  Claim C1 says every numeric field of the result is a finite float for every decodable
  input, silent and very short ones included. The code guards the pitch statistics and
  the jitter with fallback constants, but not the shimmer and the rhythm score: on the
  all-zero waveform the mean RMS is zero and there are no inter-beat intervals, both
  quotients are $0/0$ or a statistic of an empty array, and both fields are NaN.
\<close>

theorem silent_input_not_finite:
  "extract_prosodic_features silent_lib ''silence.wav'' = (Some silent_features, []) \<and>
   field silent_features ''voice_quality'' ''shimmer'' = Some (PyFloat NaN) \<and>
   field silent_features ''timing'' ''rhythm_score'' = Some (PyFloat NaN) \<and>
   is_finite NaN = False"
  by (simp add: silent_run) (simp add: silent_features_def field_def)

subsection \<open>Jitter and shimmer\<close>

text \<open>
  Claim C3, as amended. For every successful extraction, \<^verbatim>\<open>voice_quality.jitter\<close> is
  the standard deviation of the successive differences of the voiced pitch values divided
  by the mean of the voiced pitch values themselves (not by the mean of the differences),
  with the default 0.01 when fewer than two frames are voiced; and
  \<^verbatim>\<open>voice_quality.shimmer\<close> is the standard deviation of the successive differences
  of the per-frame RMS amplitudes divided by the mean of the RMS amplitudes themselves.
\<close>

theorem jitter_shimmer_formula:
  assumes "extract_prosodic_features lib audio_path = (Some r, err)"
    and "load lib audio_path = Inr (y, sr)"
    and "pyin lib y 50 400 = Inr (f0, voiced_flag, voiced_probs)"
    and "feature_rms lib y = Inr (rms # rest)"
  shows "field r ''voice_quality'' ''jitter'' =
           Some (PyFloat
             (if length (voiced_values f0 voiced_flag) < 2 then Num (1 / 100)
              else np_div (np_std (successive_differences (voiced_values f0 voiced_flag)))
                     (np_mean (voiced_values f0 voiced_flag)))) \<and>
         field r ''voice_quality'' ''shimmer'' =
           Some (PyFloat (np_div (np_std (successive_differences rms)) (np_mean rms)))"
proof -
  from success_analysis [OF assms(1,2)] assms(3,4) obtain tempo beats
    where "build_features (voiced_values f0 voiced_flag) rms (map np_square rms) tempo beats
      = Inr r"
    by auto
  then show ?thesis
    by (auto simp: build_features_def bind_exn_Inr field_def np_diff_successive)
qed

theorem jitter_shimmer_formula_witness:
  "extract_prosodic_features voiced_lib ''speech.wav'' = (Some voiced_features, []) \<and>
   field voiced_features ''voice_quality'' ''jitter'' =
     Some (PyFloat (np_div (np_std (successive_differences [Num 100, Num 110, Num 130]))
                      (np_mean [Num 100, Num 110, Num 130]))) \<and>
   field voiced_features ''voice_quality'' ''shimmer'' =
     Some (PyFloat (np_div
       (np_std (successive_differences [Num (1 / 8), Num (1 / 8), Num (3 / 8), Num (3 / 8), Num (5 / 8)]))
       (np_mean [Num (1 / 8), Num (1 / 8), Num (3 / 8), Num (3 / 8), Num (5 / 8)])))"
proof -
  have l: "load voiced_lib ''speech.wav'' = Inr (tone 2048, 22050)"
    by (simp add: voiced_lib_def)
  have p: "pyin voiced_lib (tone 2048) 50 400 =
      Inr ([Num 100, NaN, Num 110, Num 130, NaN], [True, False, True, True, False],
           [Num 1, Num 0, Num 1, Num 1, Num 0])"
    by (simp add: voiced_lib_def)
  have f: "feature_rms voiced_lib (tone 2048) =
      Inr ([Num (1 / 8), Num (1 / 8), Num (3 / 8), Num (3 / 8), Num (5 / 8)] # [])"
    by (simp add: voiced_lib_def)
  have v: "voiced_values [Num 100, NaN, Num 110, Num 130, NaN] [True, False, True, True, False] =
      [Num 100, Num 110, Num 130]"
    by (simp add: voiced_values_def upt_rec)
  from jitter_shimmer_formula [OF voiced_run l p f] show ?thesis
    by (simp add: voiced_run v)
qed

text \<open>
  The claim as stated reads jitter and shimmer as coefficients of variation of the
  difference sequences. On the voiced example the voiced pitch values are 100, 110, 130:
  their differences 10, 20 have standard deviation 5 and mean 15, a coefficient of
  variation of 1/3, while the script returns 5 over the mean pitch, 3/68. The RMS values
  1/8, 1/8, 3/8, 3/8, 5/8 have differences 0, 1/4, 0, 1/4 with coefficient of variation
  1, while the script returns 5/13.
\<close>

theorem jitter_shimmer_not_cv_of_differences:
  "extract_prosodic_features voiced_lib ''speech.wav'' = (Some voiced_features, []) \<and>
   field voiced_features ''voice_quality'' ''jitter'' = Some (PyFloat (Num (3 / 68))) \<and>
   coefficient_of_variation (successive_differences
     (voiced_values [Num 100, NaN, Num 110, Num 130, NaN]
       [True, False, True, True, False])) =
     Num (1 / 3) \<and>
   field voiced_features ''voice_quality'' ''shimmer'' = Some (PyFloat (Num (5 / 13))) \<and>
   coefficient_of_variation (successive_differences [Num (1 / 8), Num (1 / 8), Num (3 / 8), Num (3 / 8), Num (5 / 8)]) =
     Num 1 \<and>
   field voiced_features ''voice_quality'' ''jitter'' \<noteq>
     Some (PyFloat (coefficient_of_variation (successive_differences
       (voiced_values [Num 100, NaN, Num 110, Num 130, NaN]
       [True, False, True, True, False])))) \<and>
   field voiced_features ''voice_quality'' ''shimmer'' \<noteq>
     Some (PyFloat (coefficient_of_variation
       (successive_differences [Num (1 / 8), Num (1 / 8), Num (3 / 8), Num (3 / 8), Num (5 / 8)])))"
proof -
  have j: "field voiced_features ''voice_quality'' ''jitter'' = Some (PyFloat (Num (3 / 68)))"
    by (simp add: voiced_features_def field_def)
  have s: "field voiced_features ''voice_quality'' ''shimmer'' = Some (PyFloat (Num (5 / 13)))"
    by (simp add: voiced_features_def field_def)
  have v: "voiced_values [Num 100, NaN, Num 110, Num 130, NaN] [True, False, True, True, False] =
      [Num 100, Num 110, Num 130]"
    by (simp add: voiced_values_def upt_rec)
  have d1: "successive_differences [Num 100, Num 110, Num 130] = [Num 10, Num 20]"
    by (simp add: successive_differences_def upt_rec np_sub_def)
  have d2: "successive_differences [Num (1 / 8), Num (1 / 8), Num (3 / 8), Num (3 / 8), Num (5 / 8)] =
      [Num 0, Num (1 / 4), Num 0, Num (1 / 4)]"
    by (simp add: successive_differences_def upt_rec np_sub_def)
  have c1: "coefficient_of_variation [Num 10, Num 20] = Num (1 / 3)"
    by (simp add: coefficient_of_variation_def np_defs Let_def sqrt_25)
  have c2: "coefficient_of_variation [Num 0, Num (1 / 4), Num 0, Num (1 / 4)] = Num 1"
    by (simp add: coefficient_of_variation_def np_defs Let_def sqrt_64th)
  show ?thesis
    by (simp add: voiced_run j s v d1 d2 c1 c2)
qed

subsection \<open>Formants\<close>

text \<open>
  Claim C4. Whatever the input and whatever the library returned, the
  \<^verbatim>\<open>voice_quality.formants\<close> field of a successful extraction is exactly the list of
  the three fixed frequency/bandwidth pairs 700/50, 1200/70 and 2500/100.
\<close>

theorem formants_fixed:
  assumes "extract_prosodic_features lib audio_path = (Some r, err)"
  shows "field r ''voice_quality'' ''formants'' =
           Some (PyList [
             PyDict [(''frequency'', PyFloat (Num 700)), (''bandwidth'', PyFloat (Num 50))],
             PyDict [(''frequency'', PyFloat (Num 1200)), (''bandwidth'', PyFloat (Num 70))],
             PyDict [(''frequency'', PyFloat (Num 2500)), (''bandwidth'', PyFloat (Num 100))]])"
proof -
  from success_built [OF assms] obtain c rms en tempo beats
    where "build_features c rms en tempo beats = Inr r"
    by blast
  then show ?thesis
    by (auto simp: build_features_def bind_exn_Inr field_def formants_def formant_def)
qed

theorem formants_fixed_witness:
  "extract_prosodic_features voiced_lib ''speech.wav'' = (Some voiced_features, []) \<and>
   field voiced_features ''voice_quality'' ''formants'' =
     Some (PyList [
       PyDict [(''frequency'', PyFloat (Num 700)), (''bandwidth'', PyFloat (Num 50))],
       PyDict [(''frequency'', PyFloat (Num 1200)), (''bandwidth'', PyFloat (Num 70))],
       PyDict [(''frequency'', PyFloat (Num 2500)), (''bandwidth'', PyFloat (Num 100))]])"
  using formants_fixed [OF voiced_run [of "''speech.wav''"]] voiced_run by simp

subsection \<open>Contours\<close>

text \<open>
  Claim C5. For every successful extraction, \<^verbatim>\<open>pitch_contour\<close> and
  \<^verbatim>\<open>energy_contour\<close> are lists of at most 100 elements: the first 100 elements (all of
  them when there are fewer) of the voiced pitch values and of the per-frame energies,
  the squares of the RMS amplitudes.
\<close>

theorem contours_truncated:
  assumes "extract_prosodic_features lib audio_path = (Some r, err)"
    and "load lib audio_path = Inr (y, sr)"
    and "pyin lib y 50 400 = Inr (f0, voiced_flag, voiced_probs)"
    and "feature_rms lib y = Inr (rms # rest)"
  shows "\<exists>pc ec.
           field r ''pitch'' ''pitch_contour'' = Some (PyList (map PyFloat pc)) \<and>
           field r ''energy'' ''energy_contour'' = Some (PyList (map PyFloat ec)) \<and>
           pc = take 100 (voiced_values f0 voiced_flag) \<and>
           ec = take 100 (map np_square rms) \<and>
           length pc \<le> 100 \<and> length ec \<le> 100"
proof -
  from success_analysis [OF assms(1,2)] assms(3,4) obtain tempo beats
    where "build_features (voiced_values f0 voiced_flag) rms (map np_square rms) tempo beats
      = Inr r"
    by auto
  then show ?thesis
    by (auto simp: build_features_def bind_exn_Inr field_def tolist_def)
qed

lemma long_success: "\<exists>r. extract_prosodic_features long_lib p = (Some r, [])"
proof -
  have a: "analyses_return long_lib p"
    by (simp add: analyses_return_def long_lib_def)
  have l: "load long_lib p = Inr (tone 76288, 22050)"
    by (simp add: long_lib_def)
  have y: "pyin long_lib (tone 76288) 50 400 =
      Inr (replicate 150 (Num 200), replicate 150 True, replicate 150 (Num 1))"
    by (simp add: long_lib_def)
  from try_body_returns [OF a l y] obtain rms rest tempo beats
    where f: "feature_rms long_lib (tone 76288) = Inr (rms # rest)"
      and "rms \<noteq> []"
      and body: "try_body long_lib p =
        build_features (voiced_values (replicate 150 (Num 200)) (replicate 150 True)) rms
          (map np_square rms) tempo beats"
    by blast
  then obtain x xs where "map np_square rms = x # xs"
    by (cases rms) auto
  then have "\<exists>r. build_features (voiced_values (replicate 150 (Num 200)) (replicate 150 True))
      rms (map np_square rms) tempo beats = Inr r"
    by (simp add: build_features_def bind_exn_def np_ptp_def split: list.splits)
  with body show ?thesis
    by (auto simp: extract_prosodic_features_def)
qed

lemma long_voiced:
  "voiced_values (replicate 150 (Num 200)) (replicate 150 True) = replicate 150 (Num 200)"
proof -
  have "voiced_values (replicate 150 (Num 200)) (replicate 150 True) =
      map fst (filter snd (zip (replicate 150 (Num 200)) (replicate 150 True)))"
    by (rule mask_voiced_values [symmetric]) simp
  then show ?thesis
    by (simp add: zip_replicate)
qed

text \<open>A recording of 150 voiced frames: both contours are cut to 100 elements.\<close>

theorem contours_truncated_witness:
  "\<exists>r pc ec.
     extract_prosodic_features long_lib ''long.wav'' = (Some r, []) \<and>
     field r ''pitch'' ''pitch_contour'' = Some (PyList (map PyFloat pc)) \<and>
     field r ''energy'' ''energy_contour'' = Some (PyList (map PyFloat ec)) \<and>
     pc = replicate 100 (Num 200) \<and> ec = replicate 100 (Num (1 / 4)) \<and>
     length pc = 100 \<and> length ec = 100"
proof -
  from long_success obtain r
    where r: "extract_prosodic_features long_lib ''long.wav'' = (Some r, [])"
    by blast
  have l: "load long_lib ''long.wav'' = Inr (tone 76288, 22050)"
    by (simp add: long_lib_def)
  have y: "pyin long_lib (tone 76288) 50 400 =
      Inr (replicate 150 (Num 200), replicate 150 True, replicate 150 (Num 1))"
    by (simp add: long_lib_def)
  have f: "feature_rms long_lib (tone 76288) =
      Inr (replicate 150 (Num (1 / 2)) # [])"
    by (simp add: long_lib_def)
  from contours_truncated [OF r l y f] r show ?thesis
    by (auto simp: long_voiced np_square_def)
qed

subsection \<open>Timing\<close>

text \<open>
  Claim C8. For every successful extraction, \<^verbatim>\<open>timing.speaking_rate\<close> is exactly
  twice the tempo the beat tracker returned, and \<^verbatim>\<open>timing.rhythm_score\<close> is the
  coefficient of variation (standard deviation over mean) of the inter-beat intervals,
  the successive differences of the beat positions.
\<close>

lemma np_twice: "np_mul t (Num 2) = np_add t t"
  by (cases t) (simp_all add: scale_inf_def)

theorem timing_formula:
  assumes "extract_prosodic_features lib audio_path = (Some r, err)"
    and "load lib audio_path = Inr (y, sr)"
    and "beat_track lib y sr = Inr (tempo, beats)"
  shows "field r ''timing'' ''speaking_rate'' = Some (PyFloat (np_add tempo tempo)) \<and>
         field r ''timing'' ''rhythm_score'' =
           Some (PyFloat (coefficient_of_variation (successive_differences (as_float beats))))"
proof -
  from success_analysis [OF assms(1,2)] assms(3) obtain c rms en
    where "build_features c rms en tempo beats = Inr r"
    by auto
  then show ?thesis
    by (auto simp: build_features_def bind_exn_Inr field_def np_twice as_float_diff
        coefficient_of_variation_def)
qed

text \<open>Tempo 120 and beats at frames 0, 10, 30: rate 240, intervals 10 and 20.\<close>

theorem timing_formula_witness:
  "extract_prosodic_features voiced_lib ''speech.wav'' = (Some voiced_features, []) \<and>
   field voiced_features ''timing'' ''speaking_rate'' = Some (PyFloat (Num 240)) \<and>
   field voiced_features ''timing'' ''rhythm_score'' =
     Some (PyFloat (coefficient_of_variation [Num 10, Num 20]))"
proof -
  have l: "load voiced_lib ''speech.wav'' = Inr (tone 2048, 22050)"
    by (simp add: voiced_lib_def)
  have b: "beat_track voiced_lib (tone 2048) 22050 = Inr (Num 120, [0, 10, 30])"
    by (simp add: voiced_lib_def)
  have d: "successive_differences (as_float [0, 10, 30]) = [Num 10, Num 20]"
    by (simp add: successive_differences_def as_float_def upt_rec np_sub_def)
  from timing_formula [OF voiced_run l b] show ?thesis
    by (simp add: voiced_run d)
qed

subsection \<open>Pauses\<close>

text \<open>
  Claim C10. For every successful extraction, whatever the audio,
  \<^verbatim>\<open>timing.pause_patterns\<close> is the empty list.
\<close>

theorem pause_patterns_empty:
  assumes "extract_prosodic_features lib audio_path = (Some r, err)"
  shows "field r ''timing'' ''pause_patterns'' = Some (PyList [])"
proof -
  from success_built [OF assms] obtain c rms en tempo beats
    where "build_features c rms en tempo beats = Inr r"
    by blast
  then show ?thesis
    by (auto simp: build_features_def bind_exn_Inr field_def)
qed

theorem pause_patterns_empty_witness:
  "extract_prosodic_features voiced_lib ''speech.wav'' = (Some voiced_features, []) \<and>
   field voiced_features ''timing'' ''pause_patterns'' = Some (PyList [])"
  using pause_patterns_empty [OF voiced_run [of "''speech.wav''"]] voiced_run by simp

subsection \<open>Pitch over voiced frames\<close>

text \<open>
  Claim C9. For every successful extraction, the pitch statistics and the pitch contour
  are computed over the estimates of the frames flagged as voiced and over nothing else
  (the fallback constants when there is none), and, the pitch tracker keeping the voiced
  estimates within the bounds it is given, every element of \<^verbatim>\<open>pitch_contour\<close> lies
  within 50 to 400 Hz, the bounds the script passes.
\<close>

theorem pitch_over_voiced_frames:
  assumes "extract_prosodic_features lib audio_path = (Some r, err)"
    and "load lib audio_path = Inr (y, sr)"
    and "pyin lib y 50 400 = Inr (f0, voiced_flag, voiced_probs)"
    and "pyin_bounded 50 400 (f0, voiced_flag, voiced_probs)"
  shows "\<exists>pc.
           field r ''pitch'' ''pitch_contour'' = Some (PyList (map PyFloat pc)) \<and>
           pc = take 100 (voiced_values f0 voiced_flag) \<and>
           list_all (within_hz 50 400) pc \<and>
           field r ''pitch'' ''mean_f0'' =
             Some (PyFloat (if voiced_values f0 voiced_flag = [] then Num 150
                            else np_mean (voiced_values f0 voiced_flag))) \<and>
           field r ''pitch'' ''f0_variance'' =
             Some (PyFloat (if voiced_values f0 voiced_flag = [] then Num 100
                            else np_var (voiced_values f0 voiced_flag))) \<and>
           field r ''pitch'' ''f0_range'' =
             Some (PyFloat (case np_ptp (voiced_values f0 voiced_flag) of
                              Inl e \<Rightarrow> Num 50 | Inr v \<Rightarrow> v))"
proof -
  let ?vv = "voiced_values f0 voiced_flag"
  from success_analysis [OF assms(1,2)] assms(3) obtain rms en tempo beats
    where b: "build_features ?vv rms en tempo beats = Inr r"
    by auto
  from assms(4) have "list_all (within_hz 50 400) ?vv"
    by (simp add: pyin_bounded_def)
  then have bound: "list_all (within_hz 50 400) (take 100 ?vv)"
    by (auto simp: list_all_iff dest: in_set_takeD)
  from b have contour:
    "field r ''pitch'' ''pitch_contour'' = Some (PyList (map PyFloat (take 100 ?vv)))"
    by (auto simp: build_features_def bind_exn_Inr field_def tolist_def)
  from b have mean: "field r ''pitch'' ''mean_f0'' =
      Some (PyFloat (if ?vv = [] then Num 150 else np_mean ?vv))"
    by (auto simp: build_features_def bind_exn_Inr field_def)
  from b have var: "field r ''pitch'' ''f0_variance'' =
      Some (PyFloat (if ?vv = [] then Num 100 else np_var ?vv))"
    by (auto simp: build_features_def bind_exn_Inr field_def)
  from b have range: "field r ''pitch'' ''f0_range'' =
      Some (PyFloat (case np_ptp ?vv of Inl e \<Rightarrow> Num 50 | Inr v \<Rightarrow> v))"
    by (cases ?vv) (auto simp: build_features_def bind_exn_Inr field_def np_ptp_def)
  from contour bound mean var range show ?thesis
    by blast
qed

text \<open>
  The voiced example: the second and the last frame are unvoiced and their estimates
  (NaN) enter neither the contour nor the statistics.
\<close>

theorem pitch_over_voiced_frames_witness:
  "extract_prosodic_features voiced_lib ''speech.wav'' = (Some voiced_features, []) \<and>
   pyin_bounded 50 400
     ([Num 100, NaN, Num 110, Num 130, NaN], [True, False, True, True, False],
      [Num 1, Num 0, Num 1, Num 1, Num 0]) \<and>
   field voiced_features ''pitch'' ''pitch_contour'' =
     Some (PyList (map PyFloat [Num 100, Num 110, Num 130])) \<and>
   list_all (within_hz 50 400) [Num 100, Num 110, Num 130] \<and>
   field voiced_features ''pitch'' ''mean_f0'' =
     Some (PyFloat (np_mean [Num 100, Num 110, Num 130]))"
proof -
  have l: "load voiced_lib ''speech.wav'' = Inr (tone 2048, 22050)"
    by (simp add: voiced_lib_def)
  have p: "pyin voiced_lib (tone 2048) 50 400 =
      Inr ([Num 100, NaN, Num 110, Num 130, NaN], [True, False, True, True, False],
           [Num 1, Num 0, Num 1, Num 1, Num 0])"
    by (simp add: voiced_lib_def)
  have v: "voiced_values [Num 100, NaN, Num 110, Num 130, NaN] [True, False, True, True, False] =
      [Num 100, Num 110, Num 130]"
    by (simp add: voiced_values_def upt_rec)
  have c: "pyin_bounded 50 400
      ([Num 100, NaN, Num 110, Num 130, NaN], [True, False, True, True, False],
       [Num 1, Num 0, Num 1, Num 1, Num 0])"
    by (simp add: pyin_bounded_def v)
  from pitch_over_voiced_frames [OF voiced_run l p c] c show ?thesis
    by (simp add: voiced_run v)
qed

subsection \<open>Command line failures\<close>

text \<open>
  Claim C6. With the libraries installed, running the program with an argument count
  other than one positional argument (\<^verbatim>\<open>sys.argv\<close> of a length other than 2) prints
  the usage message to the error stream and exits with status 1; running it with a path
  the decoder rejects prints an error message to the error stream and exits with status
  1; in both cases nothing is written to standard output.
\<close>

theorem cli_failures:
  "(length argv \<noteq> 2 \<longrightarrow>
      main (Some lib) argv =
        \<lparr>stdout = [],
         stderr = [''Usage: python voice_emotion_analysis.py <audio_file>''],
         status = 1\<rparr>) \<and>
   (load lib audio_path = Inl e \<longrightarrow>
      main (Some lib) [script, audio_path] =
        \<lparr>stdout = [],
         stderr = [''Error processing audio: '' @ str_exn e],
         status = 1\<rparr>)"
  by (simp add: main_def extract_prosodic_features_def try_body_def bind_exn_def)

theorem cli_failures_witness:
  "main (Some undecodable_lib) [''voice_emotion_analysis.py''] =
     \<lparr>stdout = [],
      stderr = [''Usage: python voice_emotion_analysis.py <audio_file>''],
      status = 1\<rparr> \<and>
   main (Some undecodable_lib) [''voice_emotion_analysis.py'', ''a.wav'', ''b.wav''] =
     \<lparr>stdout = [],
      stderr = [''Usage: python voice_emotion_analysis.py <audio_file>''],
      status = 1\<rparr> \<and>
   load undecodable_lib ''missing.wav'' = Inl (LibraryError ''No such file or directory'') \<and>
   main (Some undecodable_lib) [''voice_emotion_analysis.py'', ''missing.wav''] =
     \<lparr>stdout = [],
      stderr = [''Error processing audio: No such file or directory''],
      status = 1\<rparr>"
proof -
  have l: "load undecodable_lib ''missing.wav'' =
      Inl (LibraryError ''No such file or directory'')"
    by (simp add: undecodable_lib_def)
  from cli_failures [of "[''voice_emotion_analysis.py'']" undecodable_lib
      "''missing.wav''" "LibraryError ''No such file or directory''"
      "''voice_emotion_analysis.py''"]
    cli_failures [of "[''voice_emotion_analysis.py'', ''a.wav'', ''b.wav'']" undecodable_lib
      "''missing.wav''" "LibraryError ''No such file or directory''"
      "''voice_emotion_analysis.py''"]
    l
  show ?thesis
    by simp
qed

subsection \<open>Keys of the emitted document\<close>


text \<open>
  Whatever the program writes to standard output is such a dictionary: it prints only
  after a successful extraction.
\<close>

lemma main_stdoutD:
  assumes "stdout (main (Some lib) argv) = [JsonDumps d n]"
  shows "\<exists>err. extract_prosodic_features lib (argv ! 1) = (Some d, err) \<and> n = 2"
  using assms
  by (auto simp: main_def Let_def split: if_splits prod.splits option.splits)




end
